theory Spec2Isabelle
  imports Main "HOL-Library.Sublist"
begin

section \<open>JavaScript strings\<close>

text \<open>
  Strings are lists of 8-bit characters, read as the code units U+0000 .. U+00FF.
  \<open>trim\<close> removes the white space and line terminators of that range from both ends;
  \<open>toLowerCase\<close> maps the upper-case letters of that range to their lower-case forms.
\<close>

definition is_js_space :: "char \<Rightarrow> bool" where
  "is_js_space c = (of_char c \<in> {9, 10, 11, 12, 13, 32, 160 :: nat})"

definition trim :: "string \<Rightarrow> string" where
  "trim s = rev (dropWhile is_js_space (rev (dropWhile is_js_space s)))"

definition is_upper :: "char \<Rightarrow> bool" where
  "is_upper c = (let n = of_char c :: nat in
     (65 \<le> n \<and> n \<le> 90) \<or> (192 \<le> n \<and> n \<le> 222 \<and> n \<noteq> 215))"

definition lower_char :: "char \<Rightarrow> char" where
  "lower_char c = (if is_upper c then char_of (of_char c + (32 :: nat)) else c)"

definition toLowerCase :: "string \<Rightarrow> string" where
  "toLowerCase s = map lower_char s"

section \<open>The page: elements, selectors, the host\<close>

text \<open>
  The document is the list of its elements in document order. An element carries its
  identity, its lower-case tag name, its attributes, the identities of all its ancestors,
  its text content, and the two properties the helpers read and write. Identities are
  meant to be unique within a document; an element reference held by a helper is the
  identity of the element it found.
\<close>

record element =
  elem_id :: nat
  tag :: string
  attrs :: "(string \<times> string) list"
  ancestors :: "nat list"
  textContent :: string
  val :: string
  checked :: bool

datatype container = Document | Within nat

datatype dom_event =
    Event string
  | InputEvent string
  | KeyboardEvent string string
  | MouseEvent string

datatype action =
    Focus
  | Click
  | Set_value string
  | Native_set_value string
  | Dispatch dom_event

datatype level = Log | Warn

datatype arg = Str string | Strs "string list"

record world =
  dom :: "element list"
  now :: nat
  trace :: "(nat \<times> action) list"
  console :: "(level \<times> arg list) list"

text \<open>
  The host page is a parameter: what its selector engine answers outside the fragment
  interpreted below, how its listeners change the document when the helpers act on an
  element, what its own asynchronous work does to the document in each millisecond, and
  whether \<open>HTMLInputElement.prototype\<close> exposes a setter for \<open>value\<close>.
  Timers are punctual: a callback scheduled \<open>d\<close> ms ahead runs exactly \<open>d\<close> ms later.
\<close>

record host =
  css_other :: "string \<Rightarrow> element list \<Rightarrow> element \<Rightarrow> bool"
  on_action :: "nat \<Rightarrow> action \<Rightarrow> element list \<Rightarrow> element list"
  on_tick :: "nat \<Rightarrow> element list \<Rightarrow> element list"
  native_value_setter :: "(nat \<Rightarrow> string \<Rightarrow> element list \<Rightarrow> element list) option"

subsection \<open>A fragment of CSS selectors\<close>

text \<open>
  The selectors the helpers build themselves are interpreted: an optional tag name,
  attribute tests \<open>[a="v"]\<close> and \<open>[a^="v"]\<close> on the attributes the helpers use, with
  a value free of quotes, backslashes and control characters, and the descendant
  combinator (one space). Any other selector text is answered by the host's engine
  \<open>css_other\<close>. Selector strings are taken to be valid CSS: a query never throws.
\<close>

datatype attr_test = Attr_eq string string | Attr_prefix string string

datatype compound = Compound "string option" "attr_test list"

definition dq :: char where
  "dq = CHR 0x22"

definition is_letter :: "char \<Rightarrow> bool" where
  "is_letter c = (let n = of_char c :: nat in 97 \<le> n \<and> n \<le> 122)"

definition ident_char :: "char \<Rightarrow> bool" where
  "ident_char c = (let n = of_char c :: nat in
     (97 \<le> n \<and> n \<le> 122) \<or> (48 \<le> n \<and> n \<le> 57) \<or> n = 45)"

definition plain_char :: "char \<Rightarrow> bool" where
  "plain_char c = (let n = of_char c :: nat in 32 \<le> n \<and> n \<le> 126 \<and> n \<noteq> 34 \<and> n \<noteq> 92)"

definition fragment_attrs :: "string list" where
  "fragment_attrs = [''name'', ''value'', ''role'', ''id'', ''data-automation-id'']"

definition close_value :: "(string \<Rightarrow> attr_test) \<Rightarrow> string \<Rightarrow> (attr_test \<times> string) option" where
  "close_value mk s =
     (let v = takeWhile plain_char s; r = dropWhile plain_char s in
      case r of
        c1 # c2 # rest \<Rightarrow> if c1 = dq \<and> c2 = CHR '']'' then Some (mk v, rest) else None
      | _ \<Rightarrow> None)"

definition parse_attr :: "string \<Rightarrow> (attr_test \<times> string) option" where
  "parse_attr s =
     (let a = takeWhile ident_char s; r = dropWhile ident_char s in
      if a \<notin> set fragment_attrs then None
      else case r of
        c1 # c2 # r2 \<Rightarrow>
          if c1 = CHR ''='' \<and> c2 = dq then close_value (Attr_eq a) r2
          else (case r2 of
                  c3 # r3 \<Rightarrow>
                    if c1 = CHR ''^'' \<and> c2 = CHR ''='' \<and> c3 = dq
                    then close_value (Attr_prefix a) r3 else None
                | [] \<Rightarrow> None)
      | _ \<Rightarrow> None)"

lemma close_value_shorter:
  "close_value mk s = Some (t, rest) \<Longrightarrow> length rest < length s"
proof -
  assume a: "close_value mk s = Some (t, rest)"
  have "length (dropWhile plain_char s) \<le> length s"
    by (rule length_dropWhile_le)
  with a show ?thesis
    by (auto simp: close_value_def Let_def split: list.splits if_splits)
qed

lemma parse_attr_shorter:
  "parse_attr s = Some (t, rest) \<Longrightarrow> length rest < length s"
proof -
  assume a: "parse_attr s = Some (t, rest)"
  have le: "length (dropWhile ident_char s) \<le> length s"
    by (rule length_dropWhile_le)
  from a show ?thesis
  proof (cases "dropWhile ident_char s")
    case Nil
    with a show ?thesis by (simp add: parse_attr_def Let_def split: if_splits)
  next
    case (Cons c1 r1)
    note c1 = Cons
    show ?thesis
    proof (cases r1)
      case Nil
      with a c1 show ?thesis by (simp add: parse_attr_def Let_def split: if_splits)
    next
      case (Cons c2 r2)
      note c2 = Cons
      show ?thesis
      proof (cases "c1 = CHR ''='' \<and> c2 = dq")
        case True
        with a c1 c2 have "close_value (Attr_eq (takeWhile ident_char s)) r2 = Some (t, rest)"
          by (simp add: parse_attr_def Let_def split: if_splits)
        from close_value_shorter [OF this] le c1 c2 show ?thesis by simp
      next
        case False
        note ne = False
        show ?thesis
        proof (cases r2)
          case Nil
          with a c1 c2 ne show ?thesis
            by (auto simp: parse_attr_def Let_def split: if_splits)
        next
          case (Cons c3 r3)
          with a c1 c2 ne
          have "close_value (Attr_prefix (takeWhile ident_char s)) r3 = Some (t, rest)"
            by (auto simp: parse_attr_def Let_def split: if_splits)
          from close_value_shorter [OF this] le c1 c2 Cons show ?thesis by simp
        qed
      qed
    qed
  qed
qed

function parse_attrs :: "string \<Rightarrow> (attr_test list \<times> string) option" where
  "parse_attrs [] = Some ([], [])"
| "parse_attrs (c # r) =
     (if c = CHR ''[''
      then (case parse_attr r of
              None \<Rightarrow> None
            | Some (t, rest) \<Rightarrow>
                (case parse_attrs rest of
                   None \<Rightarrow> None
                 | Some (ts, z) \<Rightarrow> Some (t # ts, z)))
      else Some ([], c # r))"
  by pat_completeness auto
termination
  by (relation "measure length") (auto dest: parse_attr_shorter)

definition parse_compound :: "string \<Rightarrow> (compound \<times> string) option" where
  "parse_compound s =
     (let t = takeWhile ident_char s; r = dropWhile ident_char s in
      if t \<noteq> [] \<and> \<not> is_letter (hd t) then None
      else case parse_attrs r of
        None \<Rightarrow> None
      | Some (ts, rest) \<Rightarrow>
          if t = [] \<and> ts = [] then None
          else Some (Compound (if t = [] then None else Some t) ts, rest))"

lemma parse_attrs_shorter:
  "parse_attrs s = Some (ts, rest) \<Longrightarrow> length rest \<le> length s"
proof (induction s arbitrary: ts rest rule: parse_attrs.induct)
  case 1
  then show ?case by simp
next
  case (2 c r)
  show ?case
  proof (cases "c = CHR ''[''")
    case False
    with "2.prems" show ?thesis by auto
  next
    case True
    with "2.prems" obtain t r1 ts1 where
      pa: "parse_attr r = Some (t, r1)" and ps: "parse_attrs r1 = Some (ts1, rest)"
      by (auto split: option.splits)
    from "2.IH" [OF True pa refl ps] parse_attr_shorter [OF pa] show ?thesis by simp
  qed
qed

lemma parse_attrs_consumes:
  "parse_attrs s = Some (ts, rest) \<Longrightarrow> ts \<noteq> [] \<Longrightarrow> length rest < length s"
proof (cases s)
  case Nil
  assume "parse_attrs s = Some (ts, rest)" "ts \<noteq> []"
  with Nil show ?thesis by simp
next
  case (Cons c r)
  assume a: "parse_attrs s = Some (ts, rest)" and ne: "ts \<noteq> []"
  from a ne Cons have br: "c = CHR ''[''" by (auto split: if_splits)
  with a Cons obtain t r1 ts1 where
    pa: "parse_attr r = Some (t, r1)" and ps: "parse_attrs r1 = Some (ts1, rest)"
    by (auto split: option.splits)
  from parse_attrs_shorter [OF ps] parse_attr_shorter [OF pa] Cons show ?thesis by simp
qed

lemma parse_compound_shorter:
  "parse_compound s = Some (c, rest) \<Longrightarrow> length rest < length s"
proof -
  assume a: "parse_compound s = Some (c, rest)"
  let ?t = "takeWhile ident_char s" and ?r = "dropWhile ident_char s"
  from a obtain ts where ps: "parse_attrs ?r = Some (ts, rest)" and ne: "\<not> (?t = [] \<and> ts = [])"
    by (auto simp: parse_compound_def Let_def split: if_splits option.splits)
  have len: "length s = length ?t + length ?r"
    by (metis length_append takeWhile_dropWhile_id)
  show ?thesis
  proof (cases "ts = []")
    case True
    with ne have "0 < length ?t" by simp
    with parse_attrs_shorter [OF ps] len show ?thesis by linarith
  next
    case False
    from parse_attrs_consumes [OF ps False] len show ?thesis by simp
  qed
qed

function parse_selector :: "string \<Rightarrow> compound list option" where
  "parse_selector s =
     (case parse_compound s of
        None \<Rightarrow> None
      | Some (c, rest) \<Rightarrow>
          (case rest of
             [] \<Rightarrow> Some [c]
           | x # r \<Rightarrow>
               if x = CHR '' ''
               then (case parse_selector r of None \<Rightarrow> None | Some cs \<Rightarrow> Some (c # cs))
               else None))"
  by pat_completeness auto
termination
  by (relation "measure length") (auto dest: parse_compound_shorter)

declare parse_selector.simps [simp del]

fun attr_holds :: "element \<Rightarrow> attr_test \<Rightarrow> bool" where
  "attr_holds e (Attr_eq a v) = (map_of (attrs e) a = Some v)"
| "attr_holds e (Attr_prefix a v) =
     (case map_of (attrs e) a of None \<Rightarrow> False | Some x \<Rightarrow> v \<noteq> [] \<and> prefix v x)"

fun compound_holds :: "element \<Rightarrow> compound \<Rightarrow> bool" where
  "compound_holds e (Compound t ts) =
     ((case t of None \<Rightarrow> True | Some n \<Rightarrow> tag e = n) \<and> list_all (attr_holds e) ts)"

definition ancestor_elems :: "element list \<Rightarrow> element \<Rightarrow> element list" where
  "ancestor_elems d e = filter (\<lambda>a. elem_id a \<in> set (ancestors e)) d"

text \<open>The chain is given innermost compound first.\<close>

fun chain_holds :: "element list \<Rightarrow> compound list \<Rightarrow> element \<Rightarrow> bool" where
  "chain_holds d [] e = False"
| "chain_holds d [c] e = compound_holds e c"
| "chain_holds d (c # cs) e =
     (compound_holds e c \<and> list_ex (chain_holds d cs) (ancestor_elems d e))"

definition selects :: "host \<Rightarrow> string \<Rightarrow> element list \<Rightarrow> element \<Rightarrow> bool" where
  "selects h sel d e =
     (case parse_selector sel of
        Some ch \<Rightarrow> chain_holds d (rev ch) e
      | None \<Rightarrow> css_other h sel d e)"

definition in_scope :: "container \<Rightarrow> element \<Rightarrow> bool" where
  "in_scope c e = (case c of Document \<Rightarrow> True | Within a \<Rightarrow> a \<in> set (ancestors e))"

definition querySelectorAll :: "host \<Rightarrow> world \<Rightarrow> container \<Rightarrow> string \<Rightarrow> element list" where
  "querySelectorAll h w c sel =
     filter (\<lambda>e. in_scope c e \<and> selects h sel (dom w) e) (dom w)"

definition querySelector :: "host \<Rightarrow> world \<Rightarrow> container \<Rightarrow> string \<Rightarrow> element option" where
  "querySelector h w c sel =
     (case querySelectorAll h w c sel of [] \<Rightarrow> None | e # _ \<Rightarrow> Some e)"

subsection \<open>Acting on the page, the console and the clock\<close>

text \<open>
  A click toggles a checkbox and checks a radio button; assigning \<open>value\<close> stores the
  string. Whatever else follows from an action is the host's reaction \<open>on_action\<close>.
  Every action of the helpers is recorded in \<open>trace\<close>, every console call in
  \<open>console\<close>, with its arguments; the texts are the source's without their emoji, and
  its arrow is written \<open>->\<close>. \<open>sleep h n\<close> lets \<open>n\<close> milliseconds pass.
\<close>

definition input_type :: "element \<Rightarrow> string option" where
  "input_type e =
     (if tag e = ''input'' then map_option toLowerCase (map_of (attrs e) ''type'') else None)"

definition activate :: "element \<Rightarrow> element" where
  "activate e =
     (if input_type e = Some ''checkbox'' then e\<lparr>checked := \<not> checked e\<rparr>
      else if input_type e = Some ''radio'' then e\<lparr>checked := True\<rparr>
      else e)"

definition set_val :: "nat \<Rightarrow> string \<Rightarrow> element list \<Rightarrow> element list" where
  "set_val t v d = map (\<lambda>e. if elem_id e = t then e\<lparr>val := v\<rparr> else e) d"

fun default_effect :: "host \<Rightarrow> nat \<Rightarrow> action \<Rightarrow> element list \<Rightarrow> element list" where
  "default_effect h t Click d = map (\<lambda>e. if elem_id e = t then activate e else e) d"
| "default_effect h t (Set_value v) d = set_val t v d"
| "default_effect h t (Native_set_value v) d =
     (case native_value_setter h of Some f \<Rightarrow> f t v d | None \<Rightarrow> d)"
| "default_effect h t Focus d = d"
| "default_effect h t (Dispatch ev) d = d"

definition act :: "host \<Rightarrow> nat \<Rightarrow> action \<Rightarrow> world \<Rightarrow> world" where
  "act h t a w =
     w\<lparr>dom := on_action h t a (default_effect h t a (dom w)), trace := trace w @ [(t, a)]\<rparr>"

definition console_log :: "arg list \<Rightarrow> world \<Rightarrow> world" where
  "console_log msg w = w\<lparr>console := console w @ [(Log, msg)]\<rparr>"

definition console_warn :: "arg list \<Rightarrow> world \<Rightarrow> world" where
  "console_warn msg w = w\<lparr>console := console w @ [(Warn, msg)]\<rparr>"

fun sleep :: "host \<Rightarrow> nat \<Rightarrow> world \<Rightarrow> world" where
  "sleep h 0 w = w"
| "sleep h (Suc n) w = sleep h n (w\<lparr>dom := on_tick h (now w) (dom w), now := Suc (now w)\<rparr>)"

datatype 'a settled = Fulfilled 'a | Rejected string

section \<open>The dropdown selection engine (part_001)\<close>

subsection \<open>Option Matcher\<close>

definition text_is :: "string \<Rightarrow> element \<Rightarrow> bool" where
  "text_is normalized opt = (toLowerCase (trim (textContent opt)) = normalized)"

fun alias_loop :: "element list \<Rightarrow> string list \<Rightarrow> element option" where
  "alias_loop options [] = None"
| "alias_loop options (alias # rest) =
     (let normalizedAlias = toLowerCase (trim alias) in
      case find (text_is normalizedAlias) options of
        Some m \<Rightarrow> Some m
      | None \<Rightarrow> alias_loop options rest)"

definition findMatchingOption :: "element list \<Rightarrow> string \<Rightarrow> string list \<Rightarrow> element option" where
  "findMatchingOption options labelToMatch aliases =
     (let normalizedLabel = toLowerCase (trim labelToMatch) in
      case find (text_is normalizedLabel) options of
        Some m \<Rightarrow> Some m
      | None \<Rightarrow> alias_loop options aliases)"

subsection \<open>Active Surface Locator\<close>

definition getActiveDropdownContainer :: "host \<Rightarrow> world \<Rightarrow> element option" where
  \<open>getActiveDropdownContainer h w =
     (let listboxes = querySelectorAll h w Document ''[role="listbox"]'' in
      if length listboxes = 0 then None
      else Some (listboxes ! (length listboxes - 1)))\<close>

subsection \<open>Selected-chip reader\<close>

definition pill_selector :: string where
  \<open>pill_selector =
     ''[id^="pill-"][data-automation-id="selectedItem"] p[data-automation-id="promptOption"]''\<close>

definition getCurrentPills :: "host \<Rightarrow> world \<Rightarrow> container \<Rightarrow> string list" where
  "getCurrentPills h w container =
     map (\<lambda>p. toLowerCase (trim (textContent p))) (querySelectorAll h w container pill_selector)"

subsection \<open>Element-Presence Waiter\<close>

lemma now_sleep: "now (sleep h n w) = now w + n"
  by (induction n arbitrary: w) simp_all

text \<open>
  \<open>poll\<close> is the interval callback of \<open>waitForElement\<close>: the state it is given is the one
  in which the interval was armed or the previous callback returned; it runs 100 ms later.
\<close>

function poll :: "host \<Rightarrow> string \<Rightarrow> container \<Rightarrow> nat \<Rightarrow> nat \<Rightarrow> world \<Rightarrow> element settled \<times> world" where
  "poll h selector container timeout start w =
     (let w' = sleep h 100 w in
      case querySelector h w' container selector of
        Some el \<Rightarrow> (Fulfilled el, w')
      | None \<Rightarrow>
          if now w' - start > timeout
          then (Rejected (''Timeout: Element not found: '' @ selector), w')
          else poll h selector container timeout start w')"
  by pat_completeness auto
termination
  by (relation "measure (\<lambda>(h, selector, container, timeout, start, w). start + timeout + 100 - now w)")
     (auto simp: now_sleep)

declare poll.simps [simp del]

definition waitForElement :: "host \<Rightarrow> string \<Rightarrow> container \<Rightarrow> nat \<Rightarrow> world \<Rightarrow> element settled \<times> world" where
  "waitForElement h selector container timeout w =
     (let start = now w in poll h selector container timeout start w)"

subsection \<open>Click-Select Flow\<close>


subsection \<open>Type-Select Flow\<close>

text \<open>
  The flow of part_001 (lines 92-144). \<open>labelToMatch\<close> is one string or an array of
  strings. The loop over the candidates is \<open>type_loop\<close>, which carries the list of
  unaccepted candidates and stops where the source breaks. The copy in part_000 is an
  earlier revision of this flow.
\<close>

datatype label_arg = One string | Many "string list"

definition value_of :: "nat \<Rightarrow> element list \<Rightarrow> string" where
  "value_of t d = (case find (\<lambda>e. elem_id e = t) d of Some e \<Rightarrow> val e | None \<Rightarrow> [])"

text \<open>Typing one candidate and committing it with Enter (lines 119-127).\<close>

definition try_candidate :: "host \<Rightarrow> nat \<Rightarrow> string \<Rightarrow> world \<Rightarrow> world" where
  "try_candidate h trigger candidate w =
     (let w1 = act h trigger (Set_value candidate) w;
          w2 = console_log [Str ''Typing candidate:'', Str candidate,
                 Str ''-> Trigger value now:'', Str (value_of trigger (dom w1))] w1;
          w3 = act h trigger (Dispatch (Event ''input'')) w2;
          w4 = sleep h 300 w3;
          w5 = act h trigger (Dispatch (KeyboardEvent ''keydown'' ''Enter'')) w4;
          w6 = act h trigger (Dispatch (KeyboardEvent ''keyup'' ''Enter'')) w5
      in sleep h 500 w6)"

fun type_loop ::
  "host \<Rightarrow> bool \<Rightarrow> container \<Rightarrow> nat \<Rightarrow> string list \<Rightarrow> string list \<Rightarrow> world \<Rightarrow> string list \<times> world" where
  "type_loop h allowMultiple container trigger [] unacceptedCandidates w =
     (unacceptedCandidates, w)"
| "type_loop h allowMultiple container trigger (candidate # rest) unacceptedCandidates w =
     (let currentPills = getCurrentPills h w container in
      if \<not> allowMultiple \<and> toLowerCase candidate \<in> set currentPills
      then (unacceptedCandidates, console_log [Str ''Already present:'', Str candidate] w)
      else
        (let w1 = try_candidate h trigger candidate w;
             newPills = getCurrentPills h w1 container
         in if toLowerCase candidate \<in> set newPills
            then (let w2 = console_log [Str ''Added:'', Str candidate] w1 in
                  if \<not> allowMultiple then (unacceptedCandidates, w2)
                  else type_loop h allowMultiple container trigger rest unacceptedCandidates w2)
            else type_loop h allowMultiple container trigger rest
                   (unacceptedCandidates @ [candidate])
                   (console_warn [Str ''Candidate not accepted:'', Str candidate] w1)))"

definition report_unaccepted :: "string list \<Rightarrow> world \<Rightarrow> world" where
  "report_unaccepted unacceptedCandidates w =
     (let w1 = console_log [Str ''Loop finished. Now printing unacceptedCandidates.''] w in
      if length unacceptedCandidates > 0
      then console_warn [Str ''Unaccepted candidates:'', Strs unacceptedCandidates] w1
      else w1)"

definition selectByTypingFromDropdown ::
  "host \<Rightarrow> string \<Rightarrow> label_arg \<Rightarrow> bool \<Rightarrow> container \<Rightarrow> string list \<Rightarrow> string \<Rightarrow> world
     \<Rightarrow> unit settled \<times> world" where
  "selectByTypingFromDropdown h triggerSelector labelToMatch allowMultiple container aliases
       optionSelector w =
     (case querySelector h w container triggerSelector of
        None \<Rightarrow> (Fulfilled (), console_warn [Str ''Menu trigger not found:'', Str triggerSelector] w)
      | Some trigger \<Rightarrow>
          (let w1 = act h (elem_id trigger) Click w;
               labelArray = (case labelToMatch of Many ls \<Rightarrow> ls | One l \<Rightarrow> [l]);
               candidates = labelArray @ aliases;
               (unacceptedCandidates, w2) =
                  type_loop h allowMultiple container (elem_id trigger) candidates [] w1
           in (Fulfilled (), report_unaccepted unacceptedCandidates w2)))"

section \<open>Field and control setters, and the other helpers\<close>

definition fillInputBySelector :: "host \<Rightarrow> string \<Rightarrow> string \<Rightarrow> container \<Rightarrow> world \<Rightarrow> world" where
  "fillInputBySelector h selector value container w =
     (case querySelector h w container selector of
        Some el \<Rightarrow>
          act h (elem_id el) (Dispatch (Event ''change''))
            (act h (elem_id el) (Dispatch (Event ''input''))
              (act h (elem_id el) (Set_value value)
                (act h (elem_id el) Focus w)))
      | None \<Rightarrow> console_warn [Str ''Input not found:'', Str selector] w)"

definition fillInputByName :: "host \<Rightarrow> string \<Rightarrow> string \<Rightarrow> container \<Rightarrow> world \<Rightarrow> world" where
  \<open>fillInputByName h name value container w =
     fillInputBySelector h (''input[name="'' @ name @ ''"]'') value container w\<close>

text \<open>The second copy in utils.js (lines 175-193): no container, no change event.\<close>

definition fillInputBySelector_copy2 :: "host \<Rightarrow> string \<Rightarrow> string \<Rightarrow> world \<Rightarrow> world" where
  "fillInputBySelector_copy2 h selector value w =
     (case querySelector h w Document selector of
        Some el \<Rightarrow>
          act h (elem_id el) (Dispatch (Event ''input''))
            (act h (elem_id el) (Set_value value)
              (act h (elem_id el) Focus w))
      | None \<Rightarrow> console_warn [Str ''Input not found:'', Str selector] w)"

definition fillInputByName_copy2 :: "host \<Rightarrow> string \<Rightarrow> string \<Rightarrow> world \<Rightarrow> world" where
  \<open>fillInputByName_copy2 h name value w =
     fillInputBySelector_copy2 h (''input[name="'' @ name @ ''"]'') value w\<close>



definition setCheckboxBySelector :: "host \<Rightarrow> string \<Rightarrow> bool \<Rightarrow> container \<Rightarrow> world \<Rightarrow> world" where
  "setCheckboxBySelector h selector checked' container w =
     (case querySelector h w container selector of
        Some el \<Rightarrow>
          if checked el \<noteq> checked'
          then console_log [Str ''Checkbox clicked programmatically.''] (act h (elem_id el) Click w)
          else w
      | None \<Rightarrow> console_warn [Str ''Checkbox not found:'', Str selector] w)"

definition setCheckboxByName :: "host \<Rightarrow> string \<Rightarrow> bool \<Rightarrow> container \<Rightarrow> world \<Rightarrow> world" where
  \<open>setCheckboxByName h name checked' container w =
     setCheckboxBySelector h (''input[name="'' @ name @ ''"]'') checked' container w\<close>

text \<open>
  \<open>dateSetValue\<close> calls the setter of \<open>HTMLInputElement.prototype\<close> on the element it is
  given. That setter throws a TypeError when the element is not an input, and an
  InvalidStateError when it is a file input and the value is not the empty string; the
  function then completes rejected, after the focus and before any assignment or event.
\<close>

definition native_setter_error :: "element \<Rightarrow> string \<Rightarrow> string option" where
  "native_setter_error e v =
     (if tag e \<noteq> ''input'' then Some ''TypeError: Illegal invocation''
      else if input_type e = Some ''file'' \<and> v \<noteq> [] then Some ''InvalidStateError''
      else None)"

definition dateSetValue :: "host \<Rightarrow> element option \<Rightarrow> string \<Rightarrow> world \<Rightarrow> unit settled \<times> world" where
  "dateSetValue h el value w =
     (case el of
        None \<Rightarrow> (Fulfilled (), w)
      | Some e \<Rightarrow>
          (case native_value_setter h of
             None \<Rightarrow> (Fulfilled (), w)
           | Some nativeSetter \<Rightarrow>
               (let w1 = act h (elem_id e) Focus w in
                case native_setter_error e value of
                  Some message \<Rightarrow> (Rejected message, w1)
                | None \<Rightarrow>
                    (Fulfilled (),
                     act h (elem_id e) (Dispatch (Event ''change''))
                       (act h (elem_id e) (Dispatch (InputEvent ''input''))
                         (act h (elem_id e) (Native_set_value value) w1))))))"


text \<open>The second copy in utils.js (lines 262-265): no container, no warning.\<close>

definition clickButton_copy2 :: "host \<Rightarrow> string \<Rightarrow> world \<Rightarrow> world" where
  "clickButton_copy2 h selector w =
     (case querySelector h w Document selector of
        Some btn \<Rightarrow> act h (elem_id btn) Click w
      | None \<Rightarrow> w)"




text \<open>The copies of utils.js that search the whole document (lines 70-80 and 136-150).\<close>

definition setCheckboxBySelector_utils :: "host \<Rightarrow> string \<Rightarrow> bool \<Rightarrow> world \<Rightarrow> world" where
  "setCheckboxBySelector_utils h selector checked' w =
     (case querySelector h w Document selector of
        Some el \<Rightarrow>
          if checked el \<noteq> checked'
          then console_log [Str ''Checkbox clicked programmatically.''] (act h (elem_id el) Click w)
          else w
      | None \<Rightarrow> console_warn [Str ''Checkbox not found:'', Str selector] w)"

definition setCheckboxByName_utils :: "host \<Rightarrow> string \<Rightarrow> bool \<Rightarrow> world \<Rightarrow> world" where
  \<open>setCheckboxByName_utils h name checked' w =
     setCheckboxBySelector_utils h (''input[name="'' @ name @ ''"]'') checked' w\<close>

definition waitForElement_utils :: "host \<Rightarrow> string \<Rightarrow> nat \<Rightarrow> world \<Rightarrow> element settled \<times> world" where
  "waitForElement_utils h selector timeout w =
     (let start = now w in poll h selector Document timeout start w)"

section \<open>Specification-side notions\<close>

text \<open>The selector a name-based entry point derives from the name.\<close>

definition name_selector :: "string \<Rightarrow> string" where
  \<open>name_selector name = ''input[name="'' @ name @ ''"]''\<close>



text \<open>The spec's normalisation: trim white space, fold case.\<close>

definition normalized :: "string \<Rightarrow> string" where
  "normalized s = toLowerCase (trim s)"

text \<open>Sample pages and hosts, for the concrete instances below.\<close>

definition node :: "nat \<Rightarrow> string \<Rightarrow> (string \<times> string) list \<Rightarrow> nat list \<Rightarrow> string \<Rightarrow> element" where
  "node i t as anc txt =
     \<lparr>elem_id = i, tag = t, attrs = as, ancestors = anc, textContent = txt,
      val = [], checked = False\<rparr>"

definition page :: "element list \<Rightarrow> world" where
  "page d = \<lparr>dom = d, now = 0, trace = [], console = []\<rparr>"

definition idle_host :: host where
  "idle_host = \<lparr>css_other = (\<lambda>sel d e. False), on_action = (\<lambda>t a d. d),
     on_tick = (\<lambda>t d. d), native_value_setter = Some set_val\<rparr>"

definition late_host :: host where
  "late_host = \<lparr>css_other = (\<lambda>sel d e. False), on_action = (\<lambda>t a d. d),
     on_tick = (\<lambda>t d. if t = 149 then d @ [node 7 ''li'' [(''role'', ''option'')] [] ''Yes''] else d),
     native_value_setter = Some set_val\<rparr>"

definition python_pill :: "element list" where
  "python_pill =
     [node 10 ''div'' [(''id'', ''pill-1''), (''data-automation-id'', ''selectedItem'')] [] ''Python'',
      node 11 ''p'' [(''data-automation-id'', ''promptOption'')] [10] '' Python '']"

definition skills_input :: element where
  "skills_input = node 1 ''input'' [(''id'', ''skills'')] [] []"


definition email_input :: element where
  "email_input = node 1 ''input'' [(''type'', ''text''), (''name'', ''email'')] [] []"

definition agree_box :: element where
  "agree_box = node 2 ''input'' [(''type'', ''checkbox''), (''name'', ''agree'')] [] []"

definition no_setter_host :: host where
  "no_setter_host = idle_host\<lparr>native_value_setter := None\<rparr>"

definition menu_button :: element where
  "menu_button = node 3 ''button'' [(''id'', ''open'')] [] ''Choose''"



section \<open>Verification\<close>

subsection \<open>Option Matcher\<close>

lemma find_as_filter:
  "find P xs = (case filter P xs of [] \<Rightarrow> None | x # _ \<Rightarrow> Some x)"
  by (induction xs) auto

lemma alias_loop_as_filter:
  "alias_loop options aliases =
     (case filter (\<lambda>a. \<exists>opt \<in> set options. normalized (textContent opt) = normalized a) aliases of
        [] \<Rightarrow> None
      | a # _ \<Rightarrow> Some (hd (filter (\<lambda>opt. normalized (textContent opt) = normalized a) options)))"
proof (induction aliases)
  case Nil
  show ?case by simp
next
  case (Cons a rest)
  let ?P = "\<lambda>opt. normalized (textContent opt) = normalized a"
  have P: "text_is (toLowerCase (trim a)) = ?P"
    by (simp add: text_is_def normalized_def fun_eq_iff)
  show ?case
  proof (cases "filter ?P options")
    case Nil
    then have "\<not> (\<exists>opt \<in> set options. ?P opt)"
      by (simp add: filter_empty_conv)
    with Nil Cons.IH show ?thesis
      by (simp add: P find_as_filter)
  next
    case (Cons m ms)
    then have "m \<in> set (filter ?P options)" by simp
    then have "\<exists>opt \<in> set options. ?P opt" by auto
    with Cons show ?thesis
      by (simp add: P find_as_filter)
  qed
qed

text \<open>
  C1. The Option Matcher returns the first option, in list order, whose normalised text
  equals the normalised primary label; if there is none, the first option that matches
  the first alias (in alias order) matching any option; if neither the label nor any
  alias matches, null.
\<close>

theorem findMatchingOption_first_match:
  "findMatchingOption options labelToMatch aliases =
     (case filter (\<lambda>opt. normalized (textContent opt) = normalized labelToMatch) options of
        m # _ \<Rightarrow> Some m
      | [] \<Rightarrow>
          (case filter (\<lambda>a. \<exists>opt \<in> set options. normalized (textContent opt) = normalized a) aliases of
             [] \<Rightarrow> None
           | a # _ \<Rightarrow> Some (hd (filter (\<lambda>opt. normalized (textContent opt) = normalized a) options))))"
proof -
  have P: "text_is (toLowerCase (trim labelToMatch)) =
           (\<lambda>opt. normalized (textContent opt) = normalized labelToMatch)"
    by (simp add: text_is_def normalized_def fun_eq_iff)
  show ?thesis
    unfolding findMatchingOption_def Let_def P find_as_filter alias_loop_as_filter
    by (simp split: list.splits)
qed

theorem findMatchingOption_first_match_witness:
  "findMatchingOption
     [node 1 ''li'' [] [] '' Yes '', node 2 ''li'' [] [] ''NO'', node 3 ''li'' [] [] ''no'']
     ''Maybe'' [''nope'', '' No''] = Some (node 2 ''li'' [] [] ''NO'')
   \<and> findMatchingOption
     [node 1 ''li'' [] [] '' Yes '', node 2 ''li'' [] [] ''NO''] ''YES'' [''no'']
       = Some (node 1 ''li'' [] [] '' Yes '')
   \<and> findMatchingOption
     [node 1 ''li'' [] [] '' Yes '', node 2 ''li'' [] [] ''NO''] ''x'' [''y''] = None"
  unfolding findMatchingOption_first_match by code_simp

subsection \<open>Active Surface Locator\<close>

lemma parse_listbox:
  \<open>parse_selector ''[role="listbox"]'' = Some [Compound None [Attr_eq ''role'' ''listbox'']]\<close>
  by code_simp

lemma listboxes_are_role_listbox:
  \<open>querySelectorAll h w Document ''[role="listbox"]'' =
     filter (\<lambda>e. map_of (attrs e) ''role'' = Some ''listbox'') (dom w)\<close>
  by (simp add: querySelectorAll_def in_scope_def selects_def parse_listbox)

text \<open>
  C5. The Active Surface Locator returns null when the document has no element with
  role="listbox", and otherwise the last such element in document order.
\<close>

theorem getActiveDropdownContainer_last_listbox:
  "getActiveDropdownContainer h w =
     (let listboxes = filter (\<lambda>e. map_of (attrs e) ''role'' = Some ''listbox'') (dom w) in
      if listboxes = [] then None else Some (last listboxes))"
  unfolding getActiveDropdownContainer_def listboxes_are_role_listbox
  by (simp add: Let_def last_conv_nth)

theorem getActiveDropdownContainer_last_listbox_witness:
  "getActiveDropdownContainer idle_host
     (page [node 1 ''div'' [(''role'', ''listbox'')] [] [],
            node 2 ''ul'' [(''role'', ''menu'')] [] [],
            node 3 ''div'' [(''role'', ''listbox'')] [] []])
     = Some (node 3 ''div'' [(''role'', ''listbox'')] [] [])
   \<and> getActiveDropdownContainer idle_host (page [node 2 ''ul'' [(''role'', ''menu'')] [] []])
     = None"
  unfolding getActiveDropdownContainer_last_listbox by code_simp

subsection \<open>Element-Presence Waiter\<close>

lemma sleep_add: "sleep h a (sleep h b w) = sleep h (b + a) w"
  by (induction b arbitrary: w) simp_all

lemma poll_rejects:
  assumes "\<forall>t. querySelector h (sleep h t w) c sel = None"
  shows "\<exists>T. poll h sel c timeout start w
           = (Rejected (''Timeout: Element not found: '' @ sel), sleep h T w)
         \<and> timeout < now w + T - start
         \<and> now w + T - start \<le> max timeout (now w - start) + 100"
  using assms
proof (induction h sel c timeout start w rule: poll.induct)
  case (1 h sel c timeout start w)
  let ?w = "sleep h 100 w"
  have none: "querySelector h ?w c sel = None"
    using "1.prems" by blast
  show ?case
  proof (cases "timeout < now ?w - start")
    case True
    then have "poll h sel c timeout start w
        = (Rejected (''Timeout: Element not found: '' @ sel), ?w)"
      by (subst poll.simps) (simp add: none Let_def)
    moreover from True have "timeout < now w + 100 - start"
      by (simp add: now_sleep)
    moreover have "now w + 100 - start \<le> max timeout (now w - start) + 100"
      by simp
    ultimately show ?thesis by blast
  next
    case False
    have later: "\<forall>t. querySelector h (sleep h t ?w) c sel = None"
      using "1.prems" by (simp add: sleep_add)
    from "1.IH" [OF refl none False later]
    obtain T where
      p: "poll h sel c timeout start ?w
            = (Rejected (''Timeout: Element not found: '' @ sel), sleep h T ?w)"
      and lo: "timeout < now ?w + T - start"
      and hi: "now ?w + T - start \<le> max timeout (now ?w - start) + 100"
      by blast
    have "poll h sel c timeout start w
        = (Rejected (''Timeout: Element not found: '' @ sel), sleep h (100 + T) w)"
      using False p by (subst poll.simps) (simp add: none Let_def sleep_add)
    moreover from lo have "timeout < now w + (100 + T) - start"
      by (simp add: now_sleep add.assoc)
    moreover from hi False have "now w + (100 + T) - start \<le> max timeout (now w - start) + 100"
      by (simp add: now_sleep add.assoc)
    ultimately show ?thesis by blast
  qed
qed

lemma poll_resolves:
  assumes "\<forall>t<D. querySelector h (sleep h t w) c sel = None"
    and "\<forall>t\<ge>D. querySelector h (sleep h t w) c sel \<noteq> None"
    and "now w - start + D \<le> timeout"
  shows "\<exists>T el. poll h sel c timeout start w = (Fulfilled el, sleep h T w)
         \<and> querySelector h (sleep h T w) c sel = Some el
         \<and> D \<le> T \<and> T \<le> D + 100"
  using assms
proof (induction h sel c timeout start w arbitrary: D rule: poll.induct)
  case (1 h sel c timeout start w)
  let ?w = "sleep h 100 w"
  show ?case
  proof (cases "D \<le> 100")
    case True
    with "1.prems"(2) obtain el where el: "querySelector h ?w c sel = Some el"
      by blast
    then have "poll h sel c timeout start w = (Fulfilled el, ?w)"
      by (subst poll.simps) (simp add: Let_def)
    with el True show ?thesis by force
  next
    case False
    then have none: "querySelector h ?w c sel = None"
      using "1.prems"(1) by simp
    from False "1.prems"(3) have notyet: "\<not> timeout < now ?w - start"
      by (simp add: now_sleep)
    have a: "\<forall>t<D - 100. querySelector h (sleep h t ?w) c sel = None"
      using "1.prems"(1) by (simp add: sleep_add less_diff_conv add.commute)
    have b: "\<forall>t\<ge>D - 100. querySelector h (sleep h t ?w) c sel \<noteq> None"
      using "1.prems"(2) False by (simp add: sleep_add)
    have c: "now ?w - start + (D - 100) \<le> timeout"
      using "1.prems"(3) False by (simp add: now_sleep)
    from "1.IH" [OF refl none notyet a b c]
    obtain T el where
      p: "poll h sel c timeout start ?w = (Fulfilled el, sleep h T ?w)"
      and q: "querySelector h (sleep h T ?w) c sel = Some el"
      and lo: "D - 100 \<le> T" and hi: "T \<le> D - 100 + 100"
      by blast
    have "poll h sel c timeout start w = (Fulfilled el, sleep h (100 + T) w)"
      using notyet p by (subst poll.simps) (simp add: none Let_def sleep_add)
    moreover from q have "querySelector h (sleep h (100 + T) w) c sel = Some el"
      by (simp add: sleep_add)
    moreover from lo hi False have "D \<le> 100 + T \<and> 100 + T \<le> D + 100"
      by simp
    ultimately show ?thesis by blast
  qed
qed

lemma waitForElement_utils_is_document:
  "waitForElement_utils h selector timeout w = waitForElement h selector Document timeout w"
  by (simp add: waitForElement_utils_def waitForElement_def)

text \<open>
  C4. Time is counted in milliseconds from the call; the state \<open>T\<close> ms after the call is
  \<open>sleep h T w\<close>. For a selector that is never satisfied the waiter rejects with the
  timeout error at a time \<open>T\<close> with \<open>timeout < T \<le> timeout + 100\<close>, so never before the
  timeout has elapsed and at most one polling interval after it. For a selector that is
  not satisfied before \<open>D\<close> and is satisfied from \<open>D\<close> on, with \<open>D < timeout\<close>, it
  resolves with the element found at a time \<open>T\<close> with \<open>D \<le> T \<le> D + 100\<close>. The
  waiter of utils.js (lines 136-150) is the same waiter on the whole document, so both
  bounds are its bounds too.
\<close>

theorem waitForElement_timing:
  "((\<forall>t. querySelector h (sleep h t w) container selector = None) \<longrightarrow>
      (\<exists>T. waitForElement h selector container timeout w
              = (Rejected (''Timeout: Element not found: '' @ selector), sleep h T w)
           \<and> timeout < T \<and> T \<le> timeout + 100))
   \<and> ((\<forall>t<D. querySelector h (sleep h t w) container selector = None)
        \<and> (\<forall>t\<ge>D. querySelector h (sleep h t w) container selector \<noteq> None)
        \<and> D < timeout \<longrightarrow>
      (\<exists>T el. waitForElement h selector container timeout w = (Fulfilled el, sleep h T w)
           \<and> querySelector h (sleep h T w) container selector = Some el
           \<and> D \<le> T \<and> T \<le> D + 100))
   \<and> waitForElement_utils h selector timeout w = waitForElement h selector Document timeout w"
proof (intro conjI impI)
  show "waitForElement_utils h selector timeout w = waitForElement h selector Document timeout w"
    by (rule waitForElement_utils_is_document)
next
  assume never: "\<forall>t. querySelector h (sleep h t w) container selector = None"
  from poll_rejects [OF never, of timeout "now w"]
  show "\<exists>T. waitForElement h selector container timeout w
              = (Rejected (''Timeout: Element not found: '' @ selector), sleep h T w)
           \<and> timeout < T \<and> T \<le> timeout + 100"
    by (simp add: waitForElement_def)
next
  assume a: "(\<forall>t<D. querySelector h (sleep h t w) container selector = None)
        \<and> (\<forall>t\<ge>D. querySelector h (sleep h t w) container selector \<noteq> None)
        \<and> D < timeout"
  then have "now w - now w + D \<le> timeout" by simp
  with a poll_resolves [of D h w container selector "now w" timeout]
  show "\<exists>T el. waitForElement h selector container timeout w = (Fulfilled el, sleep h T w)
           \<and> querySelector h (sleep h T w) container selector = Some el
           \<and> D \<le> T \<and> T \<le> D + 100"
    by (simp add: waitForElement_def)
qed

lemma parse_option:
  \<open>parse_selector ''[role="option"]'' = Some [Compound None [Attr_eq ''role'' ''option'']]\<close>
  by code_simp

lemma options_are_role_option:
  \<open>querySelector h w Document ''[role="option"]'' =
     (case filter (\<lambda>e. map_of (attrs e) ''role'' = Some ''option'') (dom w) of
        [] \<Rightarrow> None | e # _ \<Rightarrow> Some e)\<close>
  by (simp add: querySelector_def querySelectorAll_def in_scope_def selects_def parse_option)

lemma dom_sleep_idle: "dom (sleep idle_host n w) = dom w"
proof (induction n arbitrary: w)
  case 0
  show ?case by simp
next
  case (Suc n)
  have "on_tick idle_host t d = d" for t d
    by (simp add: idle_host_def)
  then show ?case by (simp add: Suc)
qed

lemma dom_sleep_late:
  "dom (sleep late_host n w) =
     (if now w \<le> 149 \<and> 149 < now w + n
      then dom w @ [node 7 ''li'' [(''role'', ''option'')] [] ''Yes''] else dom w)"
proof (induction n arbitrary: w)
  case 0
  show ?case by simp
next
  case (Suc n)
  have tick: "on_tick late_host t d =
      (if t = 149 then d @ [node 7 ''li'' [(''role'', ''option'')] [] ''Yes''] else d)" for t d
    by (simp add: late_host_def)
  show ?case
    by (auto simp: Suc tick)
qed

theorem waitForElement_timing_witness:
  \<open>(\<exists>T. waitForElement idle_host ''[role="option"]'' Document 250 (page [])
          = (Rejected (''Timeout: Element not found: '' @ ''[role="option"]''),
             sleep idle_host T (page []))
        \<and> 250 < T \<and> T \<le> 250 + 100)
   \<and> (\<exists>T el. waitForElement late_host ''[role="option"]'' Document 5000 (page [])
          = (Fulfilled el, sleep late_host T (page []))
        \<and> querySelector late_host (sleep late_host T (page [])) Document ''[role="option"]''
            = Some el
        \<and> 150 \<le> T \<and> T \<le> 150 + 100)
   \<and> (\<exists>T. waitForElement_utils idle_host ''[role="option"]'' 250 (page [])
          = (Rejected (''Timeout: Element not found: '' @ ''[role="option"]''),
             sleep idle_host T (page []))
        \<and> 250 < T \<and> T \<le> 250 + 100)
   \<and> (\<exists>T el. waitForElement_utils late_host ''[role="option"]'' 5000 (page [])
          = (Fulfilled el, sleep late_host T (page []))
        \<and> querySelector late_host (sleep late_host T (page [])) Document ''[role="option"]''
            = Some el
        \<and> 150 \<le> T \<and> T \<le> 150 + 100)\<close>
proof -
  have never: \<open>\<forall>t. querySelector idle_host (sleep idle_host t (page [])) Document ''[role="option"]'' = None\<close>
    by (simp add: options_are_role_option dom_sleep_idle page_def)
  have before: \<open>\<forall>t<150. querySelector late_host (sleep late_host t (page [])) Document ''[role="option"]'' = None\<close>
    by (simp add: options_are_role_option dom_sleep_late page_def)
  have after: \<open>\<forall>t\<ge>150. querySelector late_host (sleep late_host t (page [])) Document ''[role="option"]'' \<noteq> None\<close>
    by (simp add: options_are_role_option dom_sleep_late page_def node_def)
  note idle = waitForElement_timing
      [where h = idle_host and w = "page []" and container = Document
         and selector = \<open>''[role="option"]''\<close> and timeout = 250]
  note late = waitForElement_timing
      [where h = late_host and w = "page []" and container = Document
         and selector = \<open>''[role="option"]''\<close> and timeout = 5000 and D = 150]
  have r: \<open>\<exists>T. waitForElement idle_host ''[role="option"]'' Document 250 (page [])
          = (Rejected (''Timeout: Element not found: '' @ ''[role="option"]''),
             sleep idle_host T (page []))
        \<and> 250 < T \<and> T \<le> 250 + 100\<close>
    using idle [THEN conjunct1, THEN mp, OF never] .
  have f: \<open>\<exists>T el. waitForElement late_host ''[role="option"]'' Document 5000 (page [])
          = (Fulfilled el, sleep late_host T (page []))
        \<and> querySelector late_host (sleep late_host T (page [])) Document ''[role="option"]''
            = Some el
        \<and> 150 \<le> T \<and> T \<le> 150 + 100\<close>
    using late [THEN conjunct2, THEN conjunct1] before after by simp
  have ru: \<open>\<exists>T. waitForElement_utils idle_host ''[role="option"]'' 250 (page [])
          = (Rejected (''Timeout: Element not found: '' @ ''[role="option"]''),
             sleep idle_host T (page []))
        \<and> 250 < T \<and> T \<le> 250 + 100\<close>
    using r by (simp only: idle [THEN conjunct2, THEN conjunct2])
  have fu: \<open>\<exists>T el. waitForElement_utils late_host ''[role="option"]'' 5000 (page [])
          = (Fulfilled el, sleep late_host T (page []))
        \<and> querySelector late_host (sleep late_host T (page [])) Document ''[role="option"]''
            = Some el
        \<and> 150 \<le> T \<and> T \<le> 150 + 100\<close>
    using f by (simp only: late [THEN conjunct2, THEN conjunct2])
  show ?thesis
    by (rule conjI [OF r conjI [OF f conjI [OF ru fu]]])
qed

subsection \<open>Type-Select Flow\<close>

lemma lower_char_idem: "lower_char (lower_char c) = lower_char c"
  by (auto simp: lower_char_def is_upper_def Let_def)

lemma toLowerCase_idem: "toLowerCase (toLowerCase s) = toLowerCase s"
  by (simp add: toLowerCase_def lower_char_idem)

lemma pills_are_lower: "p \<in> set (getCurrentPills h w c) \<Longrightarrow> toLowerCase p = p"
  by (auto simp: getCurrentPills_def toLowerCase_idem)

lemma trace_act: "trace (act h t a w) = trace w @ [(t, a)]"
  by (simp add: act_def)


lemma trace_console_log: "trace (console_log m w) = trace w"
  by (simp add: console_log_def)

lemma trace_console_warn: "trace (console_warn m w) = trace w"
  by (simp add: console_warn_def)





lemma report_unaccepted_trace: "trace (report_unaccepted un w) = trace w"
  by (simp add: report_unaccepted_def Let_def trace_console_log trace_console_warn)






text \<open>
  C3. With multi-select disabled, when the candidate about to be tried equals, case
  folded, one of the chips read from the document at that moment, the loop stops there:
  the only effect is the log line, so nothing is typed and no input or Enter event is
  dispatched for this candidate or a later one. When this happens at the first candidate,
  the whole flow has clicked the trigger and done nothing else to the page.
\<close>

theorem single_select_short_circuit:
  "((\<exists>p \<in> set (getCurrentPills h w container). toLowerCase p = toLowerCase candidate) \<longrightarrow>
      type_loop h False container trigger (candidate # rest) unaccepted w
        = (unaccepted, console_log [Str ''Already present:'', Str candidate] w)
      \<and> trace (snd (type_loop h False container trigger (candidate # rest) unaccepted w)) = trace w
      \<and> dom (snd (type_loop h False container trigger (candidate # rest) unaccepted w)) = dom w)
   \<and> (querySelector h w container triggerSelector = Some trig
       \<and> (case labelToMatch of Many ls \<Rightarrow> ls | One l \<Rightarrow> [l]) @ aliases = candidate # rest
       \<and> (\<exists>p \<in> set (getCurrentPills h (act h (elem_id trig) Click w) container).
             toLowerCase p = toLowerCase candidate) \<longrightarrow>
       (let result = selectByTypingFromDropdown h triggerSelector labelToMatch False container
                       aliases optionSelector w
        in fst result = Fulfilled ()
           \<and> trace (snd result) = trace w @ [(elem_id trig, Click)]
           \<and> dom (snd result) = dom (act h (elem_id trig) Click w)))"
proof -
  have stop: "type_loop h False container trigger (candidate # rest) unaccepted w
        = (unaccepted, console_log [Str ''Already present:'', Str candidate] w)"
    if "\<exists>p \<in> set (getCurrentPills h w container). toLowerCase p = toLowerCase candidate"
    for w trigger unaccepted
  proof -
    from that obtain p where p: "p \<in> set (getCurrentPills h w container)"
      and eq: "toLowerCase p = toLowerCase candidate" by blast
    from pills_are_lower [OF p] eq p
    have "toLowerCase candidate \<in> set (getCurrentPills h w container)" by simp
    then show ?thesis by (simp add: Let_def)
  qed
  have dom_log: "dom (console_log m v) = dom v" for m v
    by (simp add: console_log_def)
  have dom_report: "dom (report_unaccepted un v) = dom v" for un v
    by (simp add: report_unaccepted_def Let_def console_log_def console_warn_def)
  show ?thesis
  proof (intro conjI impI)
    assume a: "\<exists>p \<in> set (getCurrentPills h w container). toLowerCase p = toLowerCase candidate"
    show "type_loop h False container trigger (candidate # rest) unaccepted w
        = (unaccepted, console_log [Str ''Already present:'', Str candidate] w)"
      by (rule stop [OF a])
    show "trace (snd (type_loop h False container trigger (candidate # rest) unaccepted w)) = trace w"
      by (simp only: stop [OF a] snd_conv trace_console_log)
    show "dom (snd (type_loop h False container trigger (candidate # rest) unaccepted w)) = dom w"
      by (simp only: stop [OF a] snd_conv dom_log)
  next
    assume b: "querySelector h w container triggerSelector = Some trig
       \<and> (case labelToMatch of Many ls \<Rightarrow> ls | One l \<Rightarrow> [l]) @ aliases = candidate # rest
       \<and> (\<exists>p \<in> set (getCurrentPills h (act h (elem_id trig) Click w) container).
             toLowerCase p = toLowerCase candidate)"
    then have s: "type_loop h False container (elem_id trig) (candidate # rest) []
                    (act h (elem_id trig) Click w)
        = ([], console_log [Str ''Already present:'', Str candidate] (act h (elem_id trig) Click w))"
      using stop by blast
    have run: "selectByTypingFromDropdown h triggerSelector labelToMatch False container
                 aliases optionSelector w
        = (Fulfilled (), report_unaccepted []
             (console_log [Str ''Already present:'', Str candidate] (act h (elem_id trig) Click w)))"
      using b s by (simp add: selectByTypingFromDropdown_def Let_def del: type_loop.simps)
    show "let result = selectByTypingFromDropdown h triggerSelector labelToMatch False container
                       aliases optionSelector w
        in fst result = Fulfilled ()
           \<and> trace (snd result) = trace w @ [(elem_id trig, Click)]
           \<and> dom (snd result) = dom (act h (elem_id trig) Click w)"
      unfolding Let_def run
      by (simp add: report_unaccepted_trace trace_console_log trace_act dom_report dom_log)
  qed
qed

lemma pill_already_there:
  "\<exists>p \<in> set (getCurrentPills idle_host (page (skills_input # python_pill)) Document).
      toLowerCase p = toLowerCase ''PYTHON''"
  by code_simp

lemma pill_there_after_click:
  "\<exists>p \<in> set (getCurrentPills idle_host
                  (act idle_host (elem_id skills_input) Click (page (skills_input # python_pill)))
                  Document).
      toLowerCase p = toLowerCase ''PYTHON''"
  by code_simp

lemma skills_input_among_pills:
  \<open>querySelector idle_host (page (skills_input # python_pill)) Document ''input[id="skills"]''
     = Some skills_input\<close>
  by code_simp

theorem single_select_short_circuit_witness:
  \<open>type_loop idle_host False Document 1 [''PYTHON'', ''Rust''] []
       (page (skills_input # python_pill))
     = ([], console_log [Str ''Already present:'', Str ''PYTHON''] (page (skills_input # python_pill)))
   \<and> trace (snd (selectByTypingFromDropdown idle_host ''input[id="skills"]'' (One ''PYTHON'')
                   False Document [''Rust''] [] (page (skills_input # python_pill))))
       = [(1, Click)]\<close>
proof -
  have id: "elem_id skills_input = 1"
    by (simp add: skills_input_def node_def)
  have start: "trace (page (skills_input # python_pill)) = []"
    by (simp add: page_def)
  have cands: "(case One ''PYTHON'' of Many ls \<Rightarrow> ls | One l \<Rightarrow> [l]) @ [''Rust'']
                 = ''PYTHON'' # [''Rust'']"
    by simp
  note loop = single_select_short_circuit
      [where h = idle_host and w = "page (skills_input # python_pill)" and container = Document
         and candidate = "''PYTHON''" and trigger = 1 and rest = "[''Rust'']" and unaccepted = "[]",
       THEN conjunct1, THEN mp, OF pill_already_there, THEN conjunct1]
  note flow = single_select_short_circuit
      [where h = idle_host and w = "page (skills_input # python_pill)" and container = Document
         and candidate = "''PYTHON''" and rest = "[''Rust'']" and trig = skills_input
         and labelToMatch = "One ''PYTHON''" and aliases = "[''Rust'']" and optionSelector = "[]",
       THEN conjunct2, THEN mp,
       OF conjI [OF skills_input_among_pills conjI [OF cands pill_there_after_click]],
       unfolded Let_def, THEN conjunct2, THEN conjunct1]
  from loop flow show ?thesis
    by (simp only: id start append_Nil simp_thms)
qed

subsection \<open>Field and control setters\<close>

lemma parse_email:
  \<open>parse_selector ''input[name="email"]''
     = Some [Compound (Some ''input'') [Attr_eq ''name'' ''email'']]\<close>
  by code_simp

lemma email_inputs:
  \<open>querySelectorAll h w Document ''input[name="email"]'' =
     filter (\<lambda>e. tag e = ''input'' \<and> map_of (attrs e) ''name'' = Some ''email'') (dom w)\<close>
  by (simp add: querySelectorAll_def in_scope_def selects_def parse_email)

text \<open>
  The copies of \<open>fillInputBySelector\<close> that take a container (utils.js lines 7-26,
  part_000, part_001): \<open>fillInputByName("email", "a@b.com")\<close> acts on the first input
  named email in document order: focus, the assignment, one input event, one change event;
  with no such input it only logs the warning. File inputs are left out: a browser refuses
  the assignment of a non-empty value to one.
\<close>

theorem fillInputByName_email:
  \<open>(\<forall>e \<in> set (dom w). input_type e \<noteq> Some ''file'') \<longrightarrow>
   fillInputByName h ''email'' ''a@b.com'' Document w =
     (case filter (\<lambda>e. tag e = ''input'' \<and> map_of (attrs e) ''name'' = Some ''email'') (dom w) of
        [] \<Rightarrow> console_warn [Str ''Input not found:'', Str ''input[name="email"]''] w
      | el # _ \<Rightarrow>
          act h (elem_id el) (Dispatch (Event ''change''))
            (act h (elem_id el) (Dispatch (Event ''input''))
              (act h (elem_id el) (Set_value ''a@b.com'')
                (act h (elem_id el) Focus w))))\<close>
  by (simp add: fillInputByName_def fillInputBySelector_def querySelector_def email_inputs
        split: list.splits)

theorem fillInputByName_email_witness:
  \<open>trace (fillInputByName idle_host ''email'' ''a@b.com'' Document (page [agree_box, email_input]))
     = [(1, Focus), (1, Set_value ''a@b.com''), (1, Dispatch (Event ''input'')),
        (1, Dispatch (Event ''change''))]
   \<and> value_of 1 (dom (fillInputByName idle_host ''email'' ''a@b.com'' Document
                        (page [agree_box, email_input]))) = ''a@b.com''
   \<and> fillInputByName idle_host ''email'' ''a@b.com'' Document (page [agree_box])
     = console_warn [Str ''Input not found:'', Str ''input[name="email"]''] (page [agree_box])\<close>
proof -
  have both: "\<forall>e \<in> set (dom (page [agree_box, email_input])). input_type e \<noteq> Some ''file''"
    by code_simp
  have one: "\<forall>e \<in> set (dom (page [agree_box])). input_type e \<noteq> Some ''file''"
    by code_simp
  note found = fillInputByName_email
      [where h = idle_host and w = "page [agree_box, email_input]", THEN mp, OF both]
  note missing = fillInputByName_email
      [where h = idle_host and w = "page [agree_box]", THEN mp, OF one]
  show ?thesis
    unfolding found missing by code_simp
qed

text \<open>
  C6. The second copy in utils.js (lines 175-193) dispatches the input event and no change
  event: on a document whose only element is an input named email,
  \<open>fillInputByName("email", "a@b.com")\<close> focuses it, assigns the value and dispatches
  one input event, and nothing else.
\<close>

theorem fillInputByName_copy2_dispatches_no_change:
  \<open>trace (fillInputByName_copy2 idle_host ''email'' ''a@b.com'' (page [email_input]))
     = [(1, Focus), (1, Set_value ''a@b.com''), (1, Dispatch (Event ''input''))]
   \<and> value_of 1 (dom (fillInputByName_copy2 idle_host ''email'' ''a@b.com'' (page [email_input])))
     = ''a@b.com''\<close>
  by code_simp

text \<open>
  C7. When the checkbox found has the requested state, the setter returns the state it was
  given: no click, nothing changed, by selector and by name. In general the only thing it
  ever does to the page is one click on the element found, and only when that element's
  state differs from the requested one. The copies in utils.js are the same functions on
  the whole document.
\<close>

theorem setCheckbox_no_click_when_equal:
  "(querySelector h w container selector = Some el \<and> checked el = requested \<longrightarrow>
      setCheckboxBySelector h selector requested container w = w)
   \<and> (querySelector h w container (name_selector name) = Some el \<and> checked el = requested \<longrightarrow>
      setCheckboxByName h name requested container w = w)
   \<and> trace (setCheckboxBySelector h selector requested container w) =
       trace w @ (case querySelector h w container selector of
                    Some el \<Rightarrow> if checked el \<noteq> requested then [(elem_id el, Click)] else []
                  | None \<Rightarrow> [])
   \<and> setCheckboxBySelector_utils h selector requested w
       = setCheckboxBySelector h selector requested Document w
   \<and> setCheckboxByName_utils h name requested w
       = setCheckboxByName h name requested Document w"
  by (auto simp: setCheckboxBySelector_def setCheckboxByName_def name_selector_def
        setCheckboxBySelector_utils_def setCheckboxByName_utils_def
        trace_act trace_console_log trace_console_warn split: option.splits)

lemma agree_box_found:
  "querySelector idle_host (page [email_input, agree_box]) Document (name_selector ''agree'')
     = Some agree_box \<and> checked agree_box = False"
  by code_simp

theorem setCheckbox_no_click_when_equal_witness:
  \<open>setCheckboxByName idle_host ''agree'' False Document (page [email_input, agree_box])
     = page [email_input, agree_box]
   \<and> trace (setCheckboxBySelector idle_host ''input[name="agree"]'' True Document
              (page [email_input, agree_box])) = [(2, Click)]\<close>
proof -
  note same = setCheckbox_no_click_when_equal
      [where h = idle_host and w = "page [email_input, agree_box]" and container = Document
         and el = agree_box and requested = False and name = "''agree''",
       THEN conjunct2, THEN conjunct1, THEN mp, OF agree_box_found]
  note tr = setCheckbox_no_click_when_equal
      [where h = idle_host and w = "page [email_input, agree_box]" and container = Document
         and selector = \<open>''input[name="agree"]''\<close> and requested = True,
       THEN conjunct2, THEN conjunct2, THEN conjunct1]
  have q: \<open>(case querySelector idle_host (page [email_input, agree_box]) Document ''input[name="agree"]'' of
             Some el \<Rightarrow> if checked el \<noteq> True then [(elem_id el, Click)] else []
           | None \<Rightarrow> []) = [(2, Click)]\<close>
    by code_simp
  have start: "trace (page [email_input, agree_box]) = []"
    by (simp add: page_def)
  from same tr q start show ?thesis
    by simp
qed

text \<open>
  C9. \<open>dateSetValue\<close> called with no element completes normally and returns the state it
  was given; so it does when the element is there but the prototype has no setter for
  \<open>value\<close>.
\<close>

theorem dateSetValue_guards:
  "dateSetValue h None v w = (Fulfilled (), w)
   \<and> (native_value_setter h = None \<longrightarrow> dateSetValue h el v w = (Fulfilled (), w))"
  by (simp add: dateSetValue_def split: option.splits)

theorem dateSetValue_guards_witness:
  "dateSetValue idle_host None ''2024-01-01'' (page [email_input]) = (Fulfilled (), page [email_input])
   \<and> dateSetValue no_setter_host (Some email_input) ''2024-01-01'' (page [email_input])
       = (Fulfilled (), page [email_input])"
proof -
  have "native_value_setter no_setter_host = None"
    by (simp add: no_setter_host_def)
  with dateSetValue_guards [of idle_host "''2024-01-01''" "page [email_input]"]
       dateSetValue_guards [of no_setter_host "''2024-01-01''" "page [email_input]" "Some email_input"]
  show ?thesis by blast
qed

text \<open>
  C10. The name-based entry points are the selector-based ones applied to the selector
  derived from the name, with the same value or state and the same container; so are the
  copies of utils.js that take no container.
\<close>

theorem name_wrappers:
  "fillInputByName h name v container w = fillInputBySelector h (name_selector name) v container w
   \<and> setCheckboxByName h name requested container w
       = setCheckboxBySelector h (name_selector name) requested container w
   \<and> fillInputByName_copy2 h name v w = fillInputBySelector_copy2 h (name_selector name) v w
   \<and> setCheckboxByName_utils h name requested w
       = setCheckboxBySelector_utils h (name_selector name) requested w"
  by (simp add: fillInputByName_def setCheckboxByName_def fillInputByName_copy2_def
        setCheckboxByName_utils_def name_selector_def)

theorem name_wrappers_witness:
  \<open>fillInputByName idle_host ''email'' ''a@b.com'' Document (page [email_input])
     = fillInputBySelector idle_host ''input[name="email"]'' ''a@b.com'' Document (page [email_input])
   \<and> setCheckboxByName idle_host ''agree'' True (Within 5) (page [agree_box])
     = setCheckboxBySelector idle_host ''input[name="agree"]'' True (Within 5) (page [agree_box])\<close>
  using name_wrappers [where h = idle_host and name = "''email''" and v = "''a@b.com''"
          and container = Document and w = "page [email_input]"]
        name_wrappers [where h = idle_host and name = "''agree''" and requested = True
          and container = "Within 5" and w = "page [agree_box]"]
  by (simp add: name_selector_def)

subsection \<open>Failures are reported, not thrown\<close>









text \<open>
  The error path of \<open>dateSetValue\<close>: given a button, it completes rejected, having
  focused the button and done nothing else.
\<close>

lemma dateSetValue_rejects_on_non_input:
  "dateSetValue idle_host (Some menu_button) ''2024-01-01'' (page [menu_button])
     = (Rejected ''TypeError: Illegal invocation'',
        act idle_host (elem_id menu_button) Focus (page [menu_button]))"
  by code_simp













subsection \<open>The selector derived from a name\<close>

lemma plain_value_closes:
  assumes "\<forall>c \<in> set name. plain_char c"
  shows "close_value mk (name @ [dq, CHR '']'']) = Some (mk name, [])"
proof -
  have nd: "\<not> plain_char dq"
    by (simp add: plain_char_def dq_def)
  from assms have t: "takeWhile plain_char (name @ [dq, CHR '']'']) = name"
    by (simp add: nd)
  from assms have d: "dropWhile plain_char (name @ [dq, CHR '']'']) = [dq, CHR '']'']"
    by (simp add: nd)
  show ?thesis
    by (simp add: close_value_def t d)
qed

lemma parse_name_attr:
  assumes "\<forall>c \<in> set name. plain_char c"
  shows "parse_attr (''name='' @ dq # name @ [dq, CHR '']'']) = Some (Attr_eq ''name'' name, [])"
  using plain_value_closes [OF assms, of "Attr_eq ''name''"]
  by (simp add: parse_attr_def ident_char_def fragment_attrs_def dq_def)

lemma name_selector_chars:
  "name_selector name = ''input['' @ ''name='' @ dq # name @ [dq, CHR '']'']"
  by (simp add: name_selector_def dq_def)

lemma parse_name_selector:
  assumes "\<forall>c \<in> set name. plain_char c"
  shows "parse_selector (name_selector name)
           = Some [Compound (Some ''input'') [Attr_eq ''name'' name]]"
proof -
  have c: "parse_compound (name_selector name)
             = Some (Compound (Some ''input'') [Attr_eq ''name'' name], [])"
    using parse_name_attr [OF assms]
    by (simp add: name_selector_chars parse_compound_def ident_char_def is_letter_def)
  show ?thesis
    by (subst parse_selector.simps) (simp add: c)
qed

text \<open>
  For a name free of quotes, backslashes and control characters, the derived selector
  finds the first element in the container, in document order, that is an input whose
  name attribute is that name.
\<close>

theorem name_selector_finds_input_by_name:
  "(\<forall>c \<in> set name. plain_char c) \<longrightarrow>
     querySelector h w container (name_selector name) =
       (case filter (\<lambda>e. in_scope container e \<and> tag e = ''input''
                            \<and> map_of (attrs e) ''name'' = Some name) (dom w) of
          [] \<Rightarrow> None
        | e # _ \<Rightarrow> Some e)"
  by (simp add: querySelector_def querySelectorAll_def selects_def parse_name_selector)

lemma email_is_plain: "\<forall>c \<in> set ''email''. plain_char c"
  by code_simp

theorem name_selector_finds_input_by_name_witness:
  "querySelector idle_host (page [agree_box, email_input]) Document (name_selector ''email'')
     = Some email_input"
proof -
  have "(case filter (\<lambda>e. in_scope Document e \<and> tag e = ''input''
                            \<and> map_of (attrs e) ''name'' = Some ''email'')
                 (dom (page [agree_box, email_input])) of
          [] \<Rightarrow> None
        | e # _ \<Rightarrow> Some e) = Some email_input"
    by code_simp
  with name_selector_finds_input_by_name
         [where name = "''email''" and h = idle_host and w = "page [agree_box, email_input]"
            and container = Document, THEN mp, OF email_is_plain]
  show ?thesis by simp
qed

end
